theory Spec2Isabelle
  imports Main "HOL-Library.Sublist"
begin

section \<open>JavaScript values\<close>

text \<open>
  The values the Salesforce block and its report and dashboard tools handle: form
  parameters, parsed JSON documents and the objects the tools return. A string is a list of
  characters. A number only ever passes through the code or is tested for truthiness, so
  integers stand for numbers. \<open>JFunction\<close> is a built-in method read off a prototype.
  An object is the list of its own enumerable properties in enumeration order.
\<close>

datatype jsval =
    JUndefined
  | JNull
  | JBool bool
  | JNum int
  | JStr string
  | JArr "jsval list"
  | JObj "(string \<times> jsval) list"
  | JFunction

type_synonym obj = "(string \<times> jsval) list"

text \<open>
  What the code throws. \<open>Error v\<close> is \<^verbatim>\<open>throw new Error(v)\<close>, carrying the
  argument handed to the constructor; the others are the errors the runtime raises:
  a property read on \<^verbatim>\<open>null\<close> or \<^verbatim>\<open>undefined\<close> or the call of something that
  is no function (\<open>TypeError\<close>), a body or text that is no JSON (\<open>SyntaxError\<close>),
  a malformed percent-encoding (\<open>URIError\<close>), a string that is no base64
  (\<open>InvalidCharacterError\<close>).
\<close>

datatype error =
    Error jsval
  | TypeError
  | SyntaxError
  | URIError
  | InvalidCharacterError

definition bindE :: "error + 'a \<Rightarrow> ('a \<Rightarrow> error + 'b) \<Rightarrow> error + 'b" where
  "bindE m f = (case m of Inl e \<Rightarrow> Inl e | Inr v \<Rightarrow> f v)"

text \<open>ToBoolean, as \<^verbatim>\<open>if (x)\<close> and \<^verbatim>\<open>x || y\<close> apply it.\<close>

fun truthy :: "jsval \<Rightarrow> bool" where
  "truthy JUndefined = False"
| "truthy JNull = False"
| "truthy (JBool b) = b"
| "truthy (JNum n) = (n \<noteq> 0)"
| "truthy (JStr s) = (s \<noteq> [])"
| "truthy (JArr xs) = True"
| "truthy (JObj ps) = True"
| "truthy JFunction = True"

definition nullish :: "jsval \<Rightarrow> bool" where
  "nullish v = (v = JUndefined \<or> v = JNull)"

subsection \<open>Property keys and their enumeration order\<close>

text \<open>
  An array index is a canonical decimal numeral below \<open>2^32 - 1\<close>. The own keys of an
  object are enumerated with the array indices first, in ascending numeric order, and the
  other string keys after them, in the order of their creation.
\<close>

definition is_digit :: "char \<Rightarrow> bool" where
  "is_digit c = (c \<in> set ''0123456789'')"

definition digit_val :: "char \<Rightarrow> nat" where
  "digit_val c = of_char c - 48"

definition index_val :: "string \<Rightarrow> nat" where
  "index_val s = foldl (\<lambda>n c. 10 * n + digit_val c) 0 s"

definition is_array_index :: "string \<Rightarrow> bool" where
  "is_array_index s =
     (s \<noteq> [] \<and> list_all is_digit s \<and> (s = ''0'' \<or> hd s \<noteq> CHR ''0'')
      \<and> index_val s < 2 ^ 32 - 1)"

definition own_keys :: "obj \<Rightarrow> string list" where
  "own_keys ps = map fst ps"

definition has_own :: "obj \<Rightarrow> string \<Rightarrow> bool" where
  "has_own ps k = (k \<in> set (own_keys ps))"

text \<open>Reading a property of a plain object: the own value, or \<^verbatim>\<open>undefined\<close>.\<close>

definition own_prop :: "obj \<Rightarrow> string \<Rightarrow> jsval" where
  "own_prop ps k = (case map_of ps k of None \<Rightarrow> JUndefined | Some v \<Rightarrow> v)"

text \<open>
  A new array-index key goes after the smaller indices and before everything else.
\<close>

fun insert_index :: "string \<Rightarrow> jsval \<Rightarrow> obj \<Rightarrow> obj" where
  "insert_index k v [] = [(k, v)]"
| "insert_index k v ((k', v') # ps) =
     (if is_array_index k' \<and> index_val k' < index_val k
      then (k', v') # insert_index k v ps
      else (k, v) # (k', v') # ps)"

text \<open>
  Defining an own data property: an existing key keeps its place and takes the new value,
  a new array index is sorted in, any other new key goes to the end.
\<close>

definition define_prop :: "obj \<Rightarrow> string \<Rightarrow> jsval \<Rightarrow> obj" where
  "define_prop ps k v =
     (if has_own ps k then map (\<lambda>(k', v'). if k' = k then (k', v) else (k', v')) ps
      else if is_array_index k then insert_index k v ps
      else ps @ [(k, v)])"

text \<open>
  The assignment \<^verbatim>\<open>o[k] = v\<close> on an object literal. The key \<^verbatim>\<open>__proto__\<close> reaches the
  prototype setter instead of creating a property, so the own properties stay as they are.
\<close>

definition assign_prop :: "obj \<Rightarrow> string \<Rightarrow> jsval \<Rightarrow> obj" where
  "assign_prop ps k v = (if k = ''__proto__'' then ps else define_prop ps k v)"

text \<open>
  The lists that are the own properties of some object: no key twice, the array indices
  first and ascending.
\<close>

definition index_part :: "obj \<Rightarrow> obj" where
  "index_part ps = filter (\<lambda>(k, v). is_array_index k) ps"

definition name_part :: "obj \<Rightarrow> obj" where
  "name_part ps = filter (\<lambda>(k, v). \<not> is_array_index k) ps"

definition wf_obj :: "obj \<Rightarrow> bool" where
  "wf_obj ps =
     (distinct (own_keys ps) \<and> ps = index_part ps @ name_part ps
      \<and> sorted_wrt (<) (map (index_val \<circ> fst) (index_part ps)))"

section \<open>The block: operation dispatch and parameter cleaning\<close>

text \<open>The ids of the operation dropdown, in the order of its options.\<close>

definition operation_ids :: "string list" where
  "operation_ids =
    [''get_accounts'', ''create_account'', ''update_account'', ''delete_account'',
     ''get_contacts'', ''create_contact'', ''update_contact'', ''delete_contact'',
     ''get_leads'', ''create_lead'', ''update_lead'', ''delete_lead'',
     ''get_opportunities'', ''create_opportunity'', ''update_opportunity'',
     ''delete_opportunity'',
     ''get_cases'', ''create_case'', ''update_case'', ''delete_case'',
     ''get_tasks'', ''create_task'', ''update_task'', ''delete_task'',
     ''list_reports'', ''get_report_metadata'', ''run_report'', ''run_report_async'',
     ''get_report_instance'', ''list_report_instances'', ''delete_report_instance'',
     ''run_report_with_filters'', ''create_report'', ''update_report'', ''delete_report'',
     ''list_dashboards'', ''get_dashboard'', ''refresh_dashboard'', ''clone_dashboard'',
     ''delete_dashboard'', ''get_dashboard_component'']"

text \<open>
  \<^verbatim>\<open>tools.config.tool\<close>: the \<^verbatim>\<open>switch\<close> over \<^verbatim>\<open>params.operation\<close>, one case
  after the other, and the \<^verbatim>\<open>default\<close> that throws.
\<close>

definition UnknownOperationError :: "string \<Rightarrow> error" where
  "UnknownOperationError operation = Error (JStr (''Unknown operation: '' @ operation))"

definition config_tool :: "string \<Rightarrow> error + string" where
  "config_tool operation =
    (if operation = ''get_accounts'' then Inr ''salesforce_get_accounts''
     else if operation = ''create_account'' then Inr ''salesforce_create_account''
     else if operation = ''update_account'' then Inr ''salesforce_update_account''
     else if operation = ''delete_account'' then Inr ''salesforce_delete_account''
     else if operation = ''get_contacts'' then Inr ''salesforce_get_contacts''
     else if operation = ''create_contact'' then Inr ''salesforce_create_contact''
     else if operation = ''update_contact'' then Inr ''salesforce_update_contact''
     else if operation = ''delete_contact'' then Inr ''salesforce_delete_contact''
     else if operation = ''get_leads'' then Inr ''salesforce_get_leads''
     else if operation = ''create_lead'' then Inr ''salesforce_create_lead''
     else if operation = ''update_lead'' then Inr ''salesforce_update_lead''
     else if operation = ''delete_lead'' then Inr ''salesforce_delete_lead''
     else if operation = ''get_opportunities'' then Inr ''salesforce_get_opportunities''
     else if operation = ''create_opportunity'' then Inr ''salesforce_create_opportunity''
     else if operation = ''update_opportunity'' then Inr ''salesforce_update_opportunity''
     else if operation = ''delete_opportunity'' then Inr ''salesforce_delete_opportunity''
     else if operation = ''get_cases'' then Inr ''salesforce_get_cases''
     else if operation = ''create_case'' then Inr ''salesforce_create_case''
     else if operation = ''update_case'' then Inr ''salesforce_update_case''
     else if operation = ''delete_case'' then Inr ''salesforce_delete_case''
     else if operation = ''get_tasks'' then Inr ''salesforce_get_tasks''
     else if operation = ''create_task'' then Inr ''salesforce_create_task''
     else if operation = ''update_task'' then Inr ''salesforce_update_task''
     else if operation = ''delete_task'' then Inr ''salesforce_delete_task''
     else if operation = ''list_reports'' then Inr ''salesforce_list_reports''
     else if operation = ''get_report_metadata'' then Inr ''salesforce_get_report_metadata''
     else if operation = ''run_report'' then Inr ''salesforce_run_report''
     else if operation = ''run_report_async'' then Inr ''salesforce_run_report_async''
     else if operation = ''get_report_instance'' then Inr ''salesforce_get_report_instance''
     else if operation = ''list_report_instances''
       then Inr ''salesforce_list_report_instances''
     else if operation = ''delete_report_instance''
       then Inr ''salesforce_delete_report_instance''
     else if operation = ''run_report_with_filters''
       then Inr ''salesforce_run_report_with_filters''
     else if operation = ''create_report'' then Inr ''salesforce_create_report''
     else if operation = ''update_report'' then Inr ''salesforce_update_report''
     else if operation = ''delete_report'' then Inr ''salesforce_delete_report''
     else if operation = ''list_dashboards'' then Inr ''salesforce_list_dashboards''
     else if operation = ''get_dashboard'' then Inr ''salesforce_get_dashboard''
     else if operation = ''refresh_dashboard'' then Inr ''salesforce_refresh_dashboard''
     else if operation = ''clone_dashboard'' then Inr ''salesforce_clone_dashboard''
     else if operation = ''delete_dashboard'' then Inr ''salesforce_delete_dashboard''
     else if operation = ''get_dashboard_component''
       then Inr ''salesforce_get_dashboard_component''
     else Inl (UnknownOperationError operation))"

text \<open>
  \<^verbatim>\<open>tools.config.params\<close>: \<^verbatim>\<open>credential\<close> and \<^verbatim>\<open>operation\<close> are taken out of the
  bag, the result starts as \<^verbatim>\<open>{ credential }\<close>, and every other entry whose value is
  not \<^verbatim>\<open>undefined\<close>, \<^verbatim>\<open>null\<close> or \<^verbatim>\<open>''\<close> is assigned to it in turn.
\<close>

definition keep_value :: "jsval \<Rightarrow> bool" where
  "keep_value v = (v \<noteq> JUndefined \<and> v \<noteq> JNull \<and> v \<noteq> JStr [])"

definition rest_of :: "obj \<Rightarrow> obj" where
  "rest_of params =
     filter (\<lambda>(k, v). k \<noteq> ''credential'' \<and> k \<noteq> ''operation'') params"

definition clean_step :: "obj \<Rightarrow> string \<times> jsval \<Rightarrow> obj" where
  "clean_step cleanParams kv =
     (case kv of (key, val) \<Rightarrow>
        if keep_value val then assign_prop cleanParams key val else cleanParams)"

definition config_params :: "obj \<Rightarrow> obj" where
  "config_params params =
     foldl clean_step [(''credential'', own_prop params ''credential'')] (rest_of params)"

definition kept :: "string \<times> jsval \<Rightarrow> bool" where
  "kept kv = (keep_value (snd kv) \<and> fst kv \<noteq> ''__proto__'')"

section \<open>Reading members of a value\<close>

text \<open>
  The member read \<^verbatim>\<open>v.k\<close> or \<^verbatim>\<open>v[k]\<close>. It throws on \<^verbatim>\<open>null\<close> and
  \<^verbatim>\<open>undefined\<close>. An object gives its own property, an array its element or length, a
  string its character or length; anything else is \<^verbatim>\<open>undefined\<close>. The names the
  program reads are \<^verbatim>\<open>0\<close>, \<^verbatim>\<open>message\<close>, \<^verbatim>\<open>id\<close>, \<^verbatim>\<open>status\<close>,
  \<^verbatim>\<open>requestDate\<close>, \<^verbatim>\<open>profile\<close> and \<^verbatim>\<open>sub\<close>; the one inherited member with
  such a name is the method \<^verbatim>\<open>sub\<close> of strings.
\<close>

fun get_prop :: "jsval \<Rightarrow> string \<Rightarrow> error + jsval" where
  "get_prop JUndefined k = Inl TypeError"
| "get_prop JNull k = Inl TypeError"
| "get_prop (JObj ps) k = Inr (own_prop ps k)"
| "get_prop (JArr xs) k =
     Inr (if is_array_index k \<and> index_val k < length xs then xs ! index_val k
          else if k = ''length'' then JNum (int (length xs))
          else JUndefined)"
| "get_prop (JStr s) k =
     Inr (if is_array_index k \<and> index_val k < length s then JStr [s ! index_val k]
          else if k = ''length'' then JNum (int (length s))
          else if k = ''sub'' then JFunction
          else JUndefined)"
| "get_prop (JBool b) k = Inr JUndefined"
| "get_prop (JNum n) k = Inr JUndefined"
| "get_prop JFunction k = Inr JUndefined"

section \<open>The instance URL\<close>

text \<open>
  \<^verbatim>\<open>getInstanceUrl\<close> is written out twice, in \<^verbatim>\<open>reports.ts\<close> and in
  \<^verbatim>\<open>dashboards.ts\<close>, with the same body. It calls three functions of the runtime,
  which are parameters here; each returns its value or the error it throws.
\<close>

record platform =
  atob :: "string \<Rightarrow> error + string"
  decodeURIComponent :: "string \<Rightarrow> error + string"
  JSON_parse :: "string \<Rightarrow> error + jsval"

text \<open>\<^verbatim>\<open>s.split(d)\<close> for a one-character separator.\<close>

fun split_on :: "char \<Rightarrow> string \<Rightarrow> string list" where
  "split_on d [] = [[]]"
| "split_on d (c # cs) =
     (if c = d then [] # split_on d cs
      else (case split_on d cs of [] \<Rightarrow> [[c]] | w # ws \<Rightarrow> (c # w) # ws))"

text \<open>
  \<^verbatim>\<open>idToken.split('.')[1]\<close>, which is \<^verbatim>\<open>undefined\<close> when the token has no dot; the
  call of \<^verbatim>\<open>replace\<close> on it then throws.
\<close>

definition payload_segment :: "string \<Rightarrow> error + string" where
  "payload_segment idToken =
     (case split_on CHR ''.'' idToken of
        a # base64Url # rest \<Rightarrow> Inr base64Url
      | _ \<Rightarrow> Inl TypeError)"

definition replace_all :: "char \<Rightarrow> char \<Rightarrow> string \<Rightarrow> string" where
  "replace_all a b s = map (\<lambda>c. if c = a then b else c) s"

definition hex_digit :: "nat \<Rightarrow> char" where
  "hex_digit n = ''0123456789abcdef'' ! (n mod 16)"

fun to_hex :: "nat \<Rightarrow> string" where
  "to_hex n = (if n < 16 then [hex_digit n] else to_hex (n div 16) @ [hex_digit n])"

text \<open>\<^verbatim>\<open>`%${(`00${c.charCodeAt(0).toString(16)}`).slice(-2)}`\<close>\<close>

definition percent_escape :: "char \<Rightarrow> string" where
  "percent_escape c =
     (let padded = ''00'' @ to_hex (of_char c)
      in CHR ''%'' # drop (length padded - 2) padded)"

text \<open>The first lines of the \<^verbatim>\<open>try\<close> block, up to the parsed payload.\<close>

definition decode_payload :: "platform \<Rightarrow> string \<Rightarrow> error + jsval" where
  "decode_payload P idToken =
     bindE (payload_segment idToken) (\<lambda>base64Url.
       let base64 = replace_all CHR ''_'' CHR ''/'' (replace_all CHR ''-'' CHR ''+'' base64Url)
       in bindE (atob P base64) (\<lambda>binary.
            bindE (decodeURIComponent P (concat (map percent_escape binary))) (\<lambda>jsonPayload.
              JSON_parse P jsonPayload)))"

text \<open>
  The regular expression \<^verbatim>\<open>/^(https:\/\/[^/]+)/\<close>: the string starts with
  \<^verbatim>\<open>https://\<close> and at least one character other than a slash follows; the group is
  the prefix up to the next slash.
\<close>

definition match_origin :: "string \<Rightarrow> string option" where
  "match_origin s =
     (let host = takeWhile (\<lambda>c. c \<noteq> CHR ''/'') (drop 8 s)
      in if take 8 s = ''https://'' \<and> host \<noteq> [] then Some (''https://'' @ host) else None)"

text \<open>
  \<^verbatim>\<open>v.match(...)\<close> on a truthy value: a string has the method, nothing else that can
  come out of a JSON document has it.
\<close>

definition call_match :: "jsval \<Rightarrow> error + string option" where
  "call_match v = (case v of JStr s \<Rightarrow> Inr (match_origin s) | _ \<Rightarrow> Inl TypeError)"

text \<open>
  The body of the \<^verbatim>\<open>try\<close> block: \<open>Inr (Some url)\<close> when it returns a URL,
  \<open>Inr None\<close> when it runs to its end, \<open>Inl e\<close> when it throws.
\<close>

definition url_from_token :: "platform \<Rightarrow> string \<Rightarrow> error + string option" where
  "url_from_token P idToken =
     bindE (decode_payload P idToken) (\<lambda>decoded.
       bindE (get_prop decoded ''profile'') (\<lambda>profile.
         if truthy profile then call_match profile
         else bindE (get_prop decoded ''sub'') (\<lambda>sub.
           if truthy sub then
             bindE (call_match sub) (\<lambda>m.
               case m of
                 Some origin \<Rightarrow>
                   if origin \<noteq> ''https://login.salesforce.com'' then Inr (Some origin)
                   else Inr None
               | None \<Rightarrow> Inr None)
           else Inr None)))"

text \<open>The logger's sink: the messages written with \<^verbatim>\<open>logger.error\<close>, oldest first.\<close>

type_synonym log = "(string \<times> error) list"

definition ConfigurationError :: error where
  "ConfigurationError = Error (JStr ''Salesforce instance URL is required but not provided'')"

definition present :: "string option \<Rightarrow> bool" where
  "present s = (case s of None \<Rightarrow> False | Some t \<Rightarrow> t \<noteq> [])"

text \<open>
  What follows the first line of \<^verbatim>\<open>getInstanceUrl\<close>: the token is tried when it is
  there and not empty, a caught error is logged, and whatever did not return throws.
\<close>

definition token_or_throw :: "platform \<Rightarrow> string option \<Rightarrow> log \<Rightarrow> (error + string) \<times> log" where
  "token_or_throw P idToken lg =
     (case idToken of
        None \<Rightarrow> (Inl ConfigurationError, lg)
      | Some t \<Rightarrow>
          if t = [] then (Inl ConfigurationError, lg)
          else (case url_from_token P t of
                  Inr (Some url) \<Rightarrow> (Inr url, lg)
                | Inr None \<Rightarrow> (Inl ConfigurationError, lg)
                | Inl e \<Rightarrow>
                    (Inl ConfigurationError,
                     lg @ [(''Failed to decode Salesforce idToken'', e)])))"

definition getInstanceUrl ::
  "platform \<Rightarrow> string option \<Rightarrow> string option \<Rightarrow> log \<Rightarrow> (error + string) \<times> log" where
  "getInstanceUrl P idToken instanceUrl lg =
     (case instanceUrl of
        None \<Rightarrow> token_or_throw P idToken lg
      | Some u \<Rightarrow> if u \<noteq> [] then (Inr u, lg) else token_or_throw P idToken lg)"

section \<open>The report and dashboard tools\<close>

subsection \<open>Request URLs of the two tools that run a report\<close>

text \<open>The parameters the two tools declare, each of type string, the last optional.\<close>

record run_params =
  p_idToken :: "string option"
  p_instanceUrl :: "string option"
  p_reportId :: string
  p_includeDetails :: "string option"

text \<open>A boolean inside a template literal.\<close>

definition bool_text :: "bool \<Rightarrow> string" where
  "bool_text b = (if b then ''true'' else ''false'')"

definition salesforceRunReportTool_url ::
  "platform \<Rightarrow> run_params \<Rightarrow> log \<Rightarrow> (error + string) \<times> log" where
  "salesforceRunReportTool_url P params lg =
     (case getInstanceUrl P (p_idToken params) (p_instanceUrl params) lg of
        (Inl e, lg') \<Rightarrow> (Inl e, lg')
      | (Inr instanceUrl, lg') \<Rightarrow>
          let includeDetails = (p_includeDetails params \<noteq> Some ''false'')
          in (Inr (instanceUrl @ ''/services/data/v59.0/analytics/reports/''
                   @ p_reportId params @ ''?includeDetails='' @ bool_text includeDetails),
              lg'))"

definition salesforceRunReportAsyncTool_url ::
  "platform \<Rightarrow> run_params \<Rightarrow> log \<Rightarrow> (error + string) \<times> log" where
  "salesforceRunReportAsyncTool_url P params lg =
     (case getInstanceUrl P (p_idToken params) (p_instanceUrl params) lg of
        (Inl e, lg') \<Rightarrow> (Inl e, lg')
      | (Inr instanceUrl, lg') \<Rightarrow>
          let includeDetails = (p_includeDetails params \<noteq> Some ''false'')
          in (Inr (instanceUrl @ ''/services/data/v59.0/analytics/reports/''
                   @ p_reportId params @ ''/instances?includeDetails=''
                   @ bool_text includeDetails),
              lg'))"

subsection \<open>Response transformers\<close>

text \<open>
  The tools of \<^verbatim>\<open>reports.ts\<close> and \<^verbatim>\<open>dashboards.ts\<close>, under the names they are
  exported with, and their \<^verbatim>\<open>id\<close> fields.
\<close>

datatype tool =
    salesforceListReportsTool
  | salesforceGetReportMetadataTool
  | salesforceRunReportTool
  | salesforceRunReportAsyncTool
  | salesforceGetReportInstanceTool
  | salesforceListReportInstancesTool
  | salesforceDeleteReportInstanceTool
  | salesforceRunReportWithFiltersTool
  | salesforceCreateReportTool
  | salesforceUpdateReportTool
  | salesforceDeleteReportTool
  | salesforceListDashboardsTool
  | salesforceGetDashboardTool
  | salesforceRefreshDashboardTool
  | salesforceCloneDashboardTool
  | salesforceDeleteDashboardTool
  | salesforceGetDashboardComponentTool

fun tool_id :: "tool \<Rightarrow> string" where
  "tool_id salesforceListReportsTool = ''salesforce_list_reports''"
| "tool_id salesforceGetReportMetadataTool = ''salesforce_get_report_metadata''"
| "tool_id salesforceRunReportTool = ''salesforce_run_report''"
| "tool_id salesforceRunReportAsyncTool = ''salesforce_run_report_async''"
| "tool_id salesforceGetReportInstanceTool = ''salesforce_get_report_instance''"
| "tool_id salesforceListReportInstancesTool = ''salesforce_list_report_instances''"
| "tool_id salesforceDeleteReportInstanceTool = ''salesforce_delete_report_instance''"
| "tool_id salesforceRunReportWithFiltersTool = ''salesforce_run_report_with_filters''"
| "tool_id salesforceCreateReportTool = ''salesforce_create_report''"
| "tool_id salesforceUpdateReportTool = ''salesforce_update_report''"
| "tool_id salesforceDeleteReportTool = ''salesforce_delete_report''"
| "tool_id salesforceListDashboardsTool = ''salesforce_list_dashboards''"
| "tool_id salesforceGetDashboardTool = ''salesforce_get_dashboard''"
| "tool_id salesforceRefreshDashboardTool = ''salesforce_refresh_dashboard''"
| "tool_id salesforceCloneDashboardTool = ''salesforce_clone_dashboard''"
| "tool_id salesforceDeleteDashboardTool = ''salesforce_delete_dashboard''"
| "tool_id salesforceGetDashboardComponentTool = ''salesforce_get_dashboard_component''"

text \<open>
  A response as a transformer sees it: the flag \<^verbatim>\<open>response.ok\<close>, true for a status
  from 200 to 299, and what \<^verbatim>\<open>response.json()\<close> resolves with, \<open>None\<close> when
  it rejects because the body is no JSON.
\<close>

record response =
  ok :: bool
  json :: "jsval option"

definition read_json :: "response \<Rightarrow> error + jsval" where
  "read_json r = (case json r of None \<Rightarrow> Inl SyntaxError | Some data \<Rightarrow> Inr data)"

text \<open>\<^verbatim>\<open>data[0]?.message || data.message || fallback\<close>\<close>

definition failure_message :: "jsval \<Rightarrow> string \<Rightarrow> error + jsval" where
  "failure_message data fallback =
     bindE (get_prop data ''0'') (\<lambda>first.
       bindE (if nullish first then Inr JUndefined else get_prop first ''message'') (\<lambda>m0.
         if truthy m0 then Inr m0
         else bindE (get_prop data ''message'') (\<lambda>m1.
           if truthy m1 then Inr m1 else Inr (JStr fallback))))"

definition throw_failure :: "jsval \<Rightarrow> string \<Rightarrow> error + jsval" where
  "throw_failure data fallback =
     (case failure_message data fallback of Inl e \<Rightarrow> Inl e | Inr m \<Rightarrow> Inl (Error m))"

text \<open>
  The opening of every transformer but the three of the delete tools: the body is read
  first, a response that is not ok throws, and the rest works on the data.
\<close>

definition with_data :: "response \<Rightarrow> string \<Rightarrow> (jsval \<Rightarrow> error + jsval) \<Rightarrow> error + jsval" where
  "with_data r fallback k =
     bindE (read_json r) (\<lambda>data. if \<not> ok r then throw_failure data fallback else k data)"

text \<open>
  The opening of the delete tools: the body is read only when the response is not ok, and
  a body that is no JSON counts as \<^verbatim>\<open>{}\<close>.
\<close>

definition delete_guard :: "response \<Rightarrow> string \<Rightarrow> jsval \<Rightarrow> error + jsval" where
  "delete_guard r fallback result =
     (if \<not> ok r
      then throw_failure (case json r of None \<Rightarrow> JObj [] | Some data \<Rightarrow> data) fallback
      else Inr result)"

definition metadata_of :: "string \<Rightarrow> string \<times> jsval" where
  "metadata_of name = (''metadata'', JObj [(''operation'', JStr name)])"

definition succeeded :: "obj \<Rightarrow> error + jsval" where
  "succeeded output = Inr (JObj [(''success'', JBool True), (''output'', JObj output)])"

fun transformResponse :: "tool \<Rightarrow> response \<Rightarrow> obj \<Rightarrow> error + jsval" where
  "transformResponse salesforceListReportsTool r params =
     with_data r ''Failed to list reports'' (\<lambda>data.
       succeeded [(''reports'', data), metadata_of ''list_reports'', (''success'', JBool True)])"
| "transformResponse salesforceGetReportMetadataTool r params =
     with_data r ''Failed to get report metadata'' (\<lambda>data.
       succeeded [(''reportId'', own_prop params ''reportId''), (''metadata'', data),
                  (''operation'', JStr ''get_report_metadata''), (''success'', JBool True)])"
| "transformResponse salesforceRunReportTool r params =
     with_data r ''Failed to run report'' (\<lambda>data.
       succeeded [(''reportId'', own_prop params ''reportId''), (''reportData'', data),
                  metadata_of ''run_report'', (''success'', JBool True)])"
| "transformResponse salesforceRunReportAsyncTool r params =
     with_data r ''Failed to run report asynchronously'' (\<lambda>data.
       bindE (get_prop data ''id'') (\<lambda>instanceId.
       bindE (get_prop data ''status'') (\<lambda>status.
       bindE (get_prop data ''requestDate'') (\<lambda>requestDate.
         succeeded [(''reportId'', own_prop params ''reportId''), (''instanceId'', instanceId),
                    (''status'', status), (''requestDate'', requestDate),
                    metadata_of ''run_report_async'', (''success'', JBool True)]))))"
| "transformResponse salesforceGetReportInstanceTool r params =
     with_data r ''Failed to get report instance'' (\<lambda>data.
       succeeded [(''reportId'', own_prop params ''reportId''),
                  (''instanceId'', own_prop params ''instanceId''), (''reportData'', data),
                  metadata_of ''get_report_instance'', (''success'', JBool True)])"
| "transformResponse salesforceListReportInstancesTool r params =
     with_data r ''Failed to list report instances'' (\<lambda>data.
       succeeded [(''reportId'', own_prop params ''reportId''), (''instances'', data),
                  metadata_of ''list_report_instances'', (''success'', JBool True)])"
| "transformResponse salesforceDeleteReportInstanceTool r params =
     delete_guard r ''Failed to delete report instance''
       (JObj [(''success'', JBool True),
              (''output'', JObj [(''reportId'', own_prop params ''reportId''),
                                 (''instanceId'', own_prop params ''instanceId''),
                                 (''deleted'', JBool True),
                                 metadata_of ''delete_report_instance''])])"
| "transformResponse salesforceRunReportWithFiltersTool r params =
     with_data r ''Failed to run report with filters'' (\<lambda>data.
       succeeded [(''reportId'', own_prop params ''reportId''), (''reportData'', data),
                  metadata_of ''run_report_with_filters'', (''success'', JBool True)])"
| "transformResponse salesforceCreateReportTool r params =
     with_data r ''Failed to create report'' (\<lambda>data.
       bindE (get_prop data ''id'') (\<lambda>reportId.
         succeeded [(''reportId'', reportId), (''report'', data), (''created'', JBool True),
                    metadata_of ''create_report'', (''success'', JBool True)]))"
| "transformResponse salesforceUpdateReportTool r params =
     with_data r ''Failed to update report'' (\<lambda>data.
       succeeded [(''reportId'', own_prop params ''reportId''), (''report'', data),
                  (''updated'', JBool True), metadata_of ''update_report'',
                  (''success'', JBool True)])"
| "transformResponse salesforceDeleteReportTool r params =
     delete_guard r ''Failed to delete report''
       (JObj [(''success'', JBool True),
              (''output'', JObj [(''reportId'', own_prop params ''reportId''),
                                 (''deleted'', JBool True),
                                 metadata_of ''delete_report''])])"
| "transformResponse salesforceListDashboardsTool r params =
     with_data r ''Failed to list dashboards'' (\<lambda>data.
       succeeded [(''dashboards'', data), metadata_of ''list_dashboards'',
                  (''success'', JBool True)])"
| "transformResponse salesforceGetDashboardTool r params =
     with_data r ''Failed to get dashboard'' (\<lambda>data.
       succeeded [(''dashboardId'', own_prop params ''dashboardId''), (''dashboard'', data),
                  metadata_of ''get_dashboard'', (''success'', JBool True)])"
| "transformResponse salesforceRefreshDashboardTool r params =
     with_data r ''Failed to refresh dashboard'' (\<lambda>data.
       succeeded [(''dashboardId'', own_prop params ''dashboardId''), (''dashboardData'', data),
                  metadata_of ''refresh_dashboard'', (''success'', JBool True)])"
| "transformResponse salesforceCloneDashboardTool r params =
     with_data r ''Failed to clone dashboard'' (\<lambda>data.
       bindE (get_prop data ''id'') (\<lambda>newDashboardId.
         succeeded [(''sourceDashboardId'', own_prop params ''dashboardId''),
                    (''newDashboardId'', newDashboardId), (''name'', own_prop params ''name''),
                    (''dashboard'', data), metadata_of ''clone_dashboard'',
                    (''success'', JBool True)]))"
| "transformResponse salesforceDeleteDashboardTool r params =
     delete_guard r ''Failed to delete dashboard''
       (JObj [(''success'', JBool True),
              (''output'', JObj [(''dashboardId'', own_prop params ''dashboardId''),
                                 (''deleted'', JBool True),
                                 metadata_of ''delete_dashboard''])])"
| "transformResponse salesforceGetDashboardComponentTool r params =
     with_data r ''Failed to get dashboard component'' (\<lambda>data.
       succeeded [(''dashboardId'', own_prop params ''dashboardId''),
                  (''componentId'', own_prop params ''componentId''), (''componentData'', data),
                  metadata_of ''get_dashboard_component'', (''success'', JBool True)])"

text \<open>The fixed string each transformer falls back to, and the two kinds of tools.\<close>

fun fallback_message :: "tool \<Rightarrow> string" where
  "fallback_message salesforceListReportsTool = ''Failed to list reports''"
| "fallback_message salesforceGetReportMetadataTool = ''Failed to get report metadata''"
| "fallback_message salesforceRunReportTool = ''Failed to run report''"
| "fallback_message salesforceRunReportAsyncTool = ''Failed to run report asynchronously''"
| "fallback_message salesforceGetReportInstanceTool = ''Failed to get report instance''"
| "fallback_message salesforceListReportInstancesTool = ''Failed to list report instances''"
| "fallback_message salesforceDeleteReportInstanceTool = ''Failed to delete report instance''"
| "fallback_message salesforceRunReportWithFiltersTool = ''Failed to run report with filters''"
| "fallback_message salesforceCreateReportTool = ''Failed to create report''"
| "fallback_message salesforceUpdateReportTool = ''Failed to update report''"
| "fallback_message salesforceDeleteReportTool = ''Failed to delete report''"
| "fallback_message salesforceListDashboardsTool = ''Failed to list dashboards''"
| "fallback_message salesforceGetDashboardTool = ''Failed to get dashboard''"
| "fallback_message salesforceRefreshDashboardTool = ''Failed to refresh dashboard''"
| "fallback_message salesforceCloneDashboardTool = ''Failed to clone dashboard''"
| "fallback_message salesforceDeleteDashboardTool = ''Failed to delete dashboard''"
| "fallback_message salesforceGetDashboardComponentTool = ''Failed to get dashboard component''"

definition is_delete :: "tool \<Rightarrow> bool" where
  "is_delete t =
     (t = salesforceDeleteReportInstanceTool \<or> t = salesforceDeleteReportTool
      \<or> t = salesforceDeleteDashboardTool)"

definition reads_id :: "tool \<Rightarrow> bool" where
  "reads_id t =
     (t = salesforceRunReportAsyncTool \<or> t = salesforceCreateReportTool
      \<or> t = salesforceCloneDashboardTool)"

text \<open>
  The data a failing transformer looks into: the parsed body, and for a delete tool
  \<^verbatim>\<open>{}\<close> in place of a body that is no JSON.
\<close>

definition failure_data :: "tool \<Rightarrow> response \<Rightarrow> jsval option" where
  "failure_data t r =
     (if is_delete t then Some (case json r of None \<Rightarrow> JObj [] | Some data \<Rightarrow> data)
      else json r)"

text \<open>
  The member \<open>k\<close> of \<open>v\<close> where there is one, \<^verbatim>\<open>undefined\<close> otherwise: what
  \<open>body[0].message\<close> and \<open>body.message\<close> stand for when they are called present or
  absent.
\<close>

definition member :: "jsval \<Rightarrow> string \<Rightarrow> jsval" where
  "member v k = (case get_prop v k of Inl e \<Rightarrow> JUndefined | Inr x \<Rightarrow> x)"

text \<open>
  What each transformer puts into its output, read off the object literals of the source.
  \<open>echo_fields\<close> pairs an output key with the input parameter it repeats.
  \<open>payload_fields\<close> pairs an output key with what it takes from the response data:
  the whole data (\<open>None\<close>) or one member of it. The delete tools take nothing from
  the response.
\<close>

fun echo_fields :: "tool \<Rightarrow> (string \<times> string) list" where
  "echo_fields salesforceListReportsTool = []"
| "echo_fields salesforceGetReportMetadataTool = [(''reportId'', ''reportId'')]"
| "echo_fields salesforceRunReportTool = [(''reportId'', ''reportId'')]"
| "echo_fields salesforceRunReportAsyncTool = [(''reportId'', ''reportId'')]"
| "echo_fields salesforceGetReportInstanceTool =
     [(''reportId'', ''reportId''), (''instanceId'', ''instanceId'')]"
| "echo_fields salesforceListReportInstancesTool = [(''reportId'', ''reportId'')]"
| "echo_fields salesforceDeleteReportInstanceTool =
     [(''reportId'', ''reportId''), (''instanceId'', ''instanceId'')]"
| "echo_fields salesforceRunReportWithFiltersTool = [(''reportId'', ''reportId'')]"
| "echo_fields salesforceCreateReportTool = []"
| "echo_fields salesforceUpdateReportTool = [(''reportId'', ''reportId'')]"
| "echo_fields salesforceDeleteReportTool = [(''reportId'', ''reportId'')]"
| "echo_fields salesforceListDashboardsTool = []"
| "echo_fields salesforceGetDashboardTool = [(''dashboardId'', ''dashboardId'')]"
| "echo_fields salesforceRefreshDashboardTool = [(''dashboardId'', ''dashboardId'')]"
| "echo_fields salesforceCloneDashboardTool =
     [(''sourceDashboardId'', ''dashboardId''), (''name'', ''name'')]"
| "echo_fields salesforceDeleteDashboardTool = [(''dashboardId'', ''dashboardId'')]"
| "echo_fields salesforceGetDashboardComponentTool =
     [(''dashboardId'', ''dashboardId''), (''componentId'', ''componentId'')]"

fun payload_fields :: "tool \<Rightarrow> (string \<times> string option) list" where
  "payload_fields salesforceListReportsTool = [(''reports'', None)]"
| "payload_fields salesforceGetReportMetadataTool = [(''metadata'', None)]"
| "payload_fields salesforceRunReportTool = [(''reportData'', None)]"
| "payload_fields salesforceRunReportAsyncTool =
     [(''instanceId'', Some ''id''), (''status'', Some ''status''),
      (''requestDate'', Some ''requestDate'')]"
| "payload_fields salesforceGetReportInstanceTool = [(''reportData'', None)]"
| "payload_fields salesforceListReportInstancesTool = [(''instances'', None)]"
| "payload_fields salesforceDeleteReportInstanceTool = []"
| "payload_fields salesforceRunReportWithFiltersTool = [(''reportData'', None)]"
| "payload_fields salesforceCreateReportTool = [(''reportId'', Some ''id''), (''report'', None)]"
| "payload_fields salesforceUpdateReportTool = [(''report'', None)]"
| "payload_fields salesforceDeleteReportTool = []"
| "payload_fields salesforceListDashboardsTool = [(''dashboards'', None)]"
| "payload_fields salesforceGetDashboardTool = [(''dashboard'', None)]"
| "payload_fields salesforceRefreshDashboardTool = [(''dashboardData'', None)]"
| "payload_fields salesforceCloneDashboardTool =
     [(''newDashboardId'', Some ''id''), (''dashboard'', None)]"
| "payload_fields salesforceDeleteDashboardTool = []"
| "payload_fields salesforceGetDashboardComponentTool = [(''componentData'', None)]"

definition pick :: "jsval \<Rightarrow> string option \<Rightarrow> jsval" where
  "pick data m = (case m of None \<Rightarrow> data | Some k \<Rightarrow> member data k)"

text \<open>
  The ids of the block's fields (\<^verbatim>\<open>subBlocks\<close>), in the order of their first
  declaration: the keys a parameter bag is made of.
\<close>

definition field_ids :: "string list" where
  "field_ids =
    [''operation'', ''credential'', ''fields'', ''limit'', ''orderBy'', ''accountId'', ''name'',
     ''type'', ''industry'', ''phone'', ''website'', ''contactId'', ''lastName'',
     ''firstName'', ''email'', ''title'', ''leadId'', ''company'', ''status'', ''leadSource'',
     ''opportunityId'', ''stageName'', ''closeDate'', ''amount'', ''probability'', ''caseId'',
     ''subject'', ''priority'', ''origin'', ''taskId'', ''activityDate'', ''whoId'', ''whatId'',
     ''reportId'', ''instanceId'', ''includeDetails'', ''dashboardId'', ''componentId'',
     ''folderId'', ''description'', ''reportMetadata'']"

section \<open>Properties of the parameter cleaning and the dispatch\<close>

lemma proto_not_index: "\<not> is_array_index ''__proto__''"
  by (simp add: is_array_index_def is_digit_def)

lemma credential_not_index: "\<not> is_array_index ''credential''"
  by (simp add: is_array_index_def is_digit_def)

lemma insert_index_append:
  "\<forall>kv\<in>set J. is_array_index (fst kv) \<and> index_val (fst kv) < index_val k \<Longrightarrow>
   \<forall>kv\<in>set T. \<not> is_array_index (fst kv) \<Longrightarrow>
   insert_index k v (J @ T) = J @ (k, v) # T"
proof (induction J)
  case Nil
  then show ?case by (cases T) auto
next
  case (Cons a J)
  then show ?case by (cases a) auto
qed

lemma clean_step_index:
  assumes k: "is_array_index k"
    and J: "\<forall>kv\<in>set J. is_array_index (fst kv) \<and> index_val (fst kv) < index_val k"
    and T: "\<forall>kv\<in>set T. \<not> is_array_index (fst kv)"
  shows "clean_step (J @ T) (k, v) = J @ filter kept [(k, v)] @ T"
proof -
  have nk: "k \<noteq> ''__proto__''" using k proto_not_index by auto
  have "k \<notin> fst ` set J" using J by fastforce
  moreover have "k \<notin> fst ` set T" using T k by fastforce
  ultimately have "\<not> has_own (J @ T) k" by (auto simp: has_own_def own_keys_def)
  then show ?thesis
    using k nk insert_index_append [OF J T]
    by (simp add: clean_step_def assign_prop_def define_prop_def kept_def)
qed

lemma foldl_index_phase:
  "\<forall>kv\<in>set I. is_array_index (fst kv) \<Longrightarrow>
   sorted_wrt (<) (map (index_val \<circ> fst) I) \<Longrightarrow>
   \<forall>kv\<in>set J. is_array_index (fst kv) \<and> (\<forall>kv'\<in>set I. index_val (fst kv) < index_val (fst kv')) \<Longrightarrow>
   \<forall>kv\<in>set T. \<not> is_array_index (fst kv) \<Longrightarrow>
   foldl clean_step (J @ T) I = J @ filter kept I @ T"
proof (induction I arbitrary: J)
  case Nil
  then show ?case by simp
next
  case (Cons a I)
  obtain k v where a: "a = (k, v)" by (cases a)
  have k: "is_array_index k" using Cons.prems(1) a by simp
  have J: "\<forall>kv\<in>set J. is_array_index (fst kv) \<and> index_val (fst kv) < index_val k"
    using Cons.prems(3) a by auto
  have step: "clean_step (J @ T) (k, v) = (J @ filter kept [(k, v)]) @ T"
    using clean_step_index [OF k J Cons.prems(4)] by simp
  have J': "\<forall>kv\<in>set (J @ filter kept [(k, v)]). is_array_index (fst kv)
            \<and> (\<forall>kv'\<in>set I. index_val (fst kv) < index_val (fst kv'))"
    using Cons.prems(2,3) k a by auto
  have "foldl clean_step ((J @ filter kept [(k, v)]) @ T) I
          = (J @ filter kept [(k, v)]) @ filter kept I @ T"
    by (rule Cons.IH [OF _ _ J' Cons.prems(4)]) (use Cons.prems(1,2) in auto)
  then show ?case using step a by simp
qed

lemma clean_step_name:
  assumes "\<not> is_array_index k" "k \<notin> fst ` set acc"
  shows "clean_step acc (k, v) = acc @ filter kept [(k, v)]"
  using assms
  by (simp add: clean_step_def assign_prop_def define_prop_def kept_def has_own_def own_keys_def)

lemma foldl_name_phase:
  "\<forall>kv\<in>set S. \<not> is_array_index (fst kv) \<Longrightarrow> distinct (map fst S) \<Longrightarrow>
   fst ` set S \<inter> fst ` set acc = {} \<Longrightarrow>
   foldl clean_step acc S = acc @ filter kept S"
proof (induction S arbitrary: acc)
  case Nil
  then show ?case by simp
next
  case (Cons a S)
  obtain k v where a: "a = (k, v)" by (cases a)
  have step: "clean_step acc (k, v) = acc @ filter kept [(k, v)]"
    using Cons.prems a by (intro clean_step_name) auto
  have "foldl clean_step (acc @ filter kept [(k, v)]) S = (acc @ filter kept [(k, v)]) @ filter kept S"
    using Cons.prems a by (intro Cons.IH) auto
  then show ?case using step a by simp
qed

lemma rest_of_parts:
  "wf_obj ps \<Longrightarrow> rest_of ps = index_part (rest_of ps) @ name_part (rest_of ps)"
proof -
  assume "wf_obj ps"
  then have "ps = index_part ps @ name_part ps" by (simp add: wf_obj_def)
  then have "rest_of ps = rest_of (index_part ps @ name_part ps)"
    by (rule arg_cong)
  then have "rest_of ps = rest_of (index_part ps) @ rest_of (name_part ps)"
    by (simp only: rest_of_def filter_append)
  moreover have "rest_of (index_part ps) = index_part (rest_of ps)"
    by (auto simp: rest_of_def index_part_def intro: filter_cong)
  moreover have "rest_of (name_part ps) = name_part (rest_of ps)"
    by (auto simp: rest_of_def name_part_def intro: filter_cong)
  ultimately show ?thesis by simp
qed

lemma sorted_wrt_filter_map:
  "sorted_wrt R (map f xs) \<Longrightarrow> sorted_wrt R (map f (filter P xs))"
  by (induction xs) auto

lemma config_params_shape:
  assumes wf: "wf_obj ps"
  shows "config_params ps =
           filter kept (index_part (rest_of ps))
           @ (''credential'', own_prop ps ''credential'')
           # filter kept (name_part (rest_of ps))"
proof -
  let ?I = "index_part (rest_of ps)" and ?S = "name_part (rest_of ps)"
  let ?c = "(''credential'', own_prop ps ''credential'')"
  have I1: "\<forall>kv\<in>set ?I. is_array_index (fst kv)" by (auto simp: index_part_def)
  have "?I = rest_of (index_part ps)"
    by (auto simp: rest_of_def index_part_def intro: filter_cong)
  then have I2: "sorted_wrt (<) (map (index_val \<circ> fst) ?I)"
    using wf unfolding wf_obj_def rest_of_def by (simp add: sorted_wrt_filter_map)
  have T: "\<forall>kv\<in>set [?c]. \<not> is_array_index (fst kv)" using credential_not_index by simp
  have "foldl clean_step ([] @ [?c]) ?I = [] @ filter kept ?I @ [?c]"
    by (rule foldl_index_phase [OF I1 I2 _ T]) simp
  then have ph1: "foldl clean_step [?c] ?I = filter kept ?I @ [?c]" by simp
  have S1: "\<forall>kv\<in>set ?S. \<not> is_array_index (fst kv)" by (auto simp: name_part_def)
  have d: "distinct (map fst (rest_of ps))"
    using wf by (simp add: wf_obj_def own_keys_def rest_of_def distinct_map_filter)
  then have S2: "distinct (map fst ?S)" by (simp add: name_part_def distinct_map_filter)
  have dis: "fst ` set ?I \<inter> fst ` set ?S = {}" using I1 S1 by fastforce
  have "''credential'' \<notin> fst ` set ?S" by (auto simp: name_part_def rest_of_def)
  then have S3: "fst ` set ?S \<inter> fst ` set (filter kept ?I @ [?c]) = {}" using dis by auto
  have ph2: "foldl clean_step (filter kept ?I @ [?c]) ?S = (filter kept ?I @ [?c]) @ filter kept ?S"
    by (rule foldl_name_phase [OF S1 S2 S3])
  have "config_params ps = foldl clean_step [?c] (?I @ ?S)"
    using rest_of_parts [OF wf] by (simp add: config_params_def)
  then show ?thesis using ph1 ph2 by simp
qed

lemma index_part_id: "\<forall>kv\<in>set xs. is_array_index (fst kv) \<Longrightarrow> index_part xs = xs"
  by (simp add: index_part_def filter_id_conv case_prod_beta)

lemma index_part_none: "\<forall>kv\<in>set xs. \<not> is_array_index (fst kv) \<Longrightarrow> index_part xs = []"
  by (simp add: index_part_def filter_empty_conv case_prod_beta)

lemma name_part_id: "\<forall>kv\<in>set xs. \<not> is_array_index (fst kv) \<Longrightarrow> name_part xs = xs"
  by (simp add: name_part_def filter_id_conv case_prod_beta)

lemma name_part_none: "\<forall>kv\<in>set xs. is_array_index (fst kv) \<Longrightarrow> name_part xs = []"
  by (simp add: name_part_def filter_empty_conv case_prod_beta)

lemma index_part_append: "index_part (xs @ ys) = index_part xs @ index_part ys"
  by (simp add: index_part_def)

lemma name_part_append: "name_part (xs @ ys) = name_part xs @ name_part ys"
  by (simp add: name_part_def)

lemma config_params_fixed:
  assumes Ai: "\<forall>kv\<in>set A. is_array_index (fst kv)"
    and Bn: "\<forall>kv\<in>set B. \<not> is_array_index (fst kv)"
    and srt: "sorted_wrt (<) (map (index_val \<circ> fst) A)"
    and dA: "distinct (map fst A)" and dB: "distinct (map fst B)"
    and Ar: "\<forall>kv\<in>set A. fst kv \<noteq> ''credential'' \<and> fst kv \<noteq> ''operation''"
    and Br: "\<forall>kv\<in>set B. fst kv \<noteq> ''credential'' \<and> fst kv \<noteq> ''operation''"
    and Ak: "\<forall>kv\<in>set A. kept kv" and Bk: "\<forall>kv\<in>set B. kept kv"
  shows "config_params (A @ (''credential'', c) # B) = A @ (''credential'', c) # B"
proof -
  let ?y = "A @ (''credential'', c) # B"
  have cn: "\<forall>kv\<in>set [(''credential'', c)]. \<not> is_array_index (fst kv)"
    using credential_not_index by simp
  have cBn: "\<forall>kv\<in>set ((''credential'', c) # B). \<not> is_array_index (fst kv)"
    using credential_not_index Bn by simp
  have AB: "fst ` set A \<inter> fst ` set B = {}" using Ai Bn by fastforce
  have cA: "''credential'' \<notin> fst ` set A" using Ar by force
  have cB: "''credential'' \<notin> fst ` set B" using Br by force
  have dy: "distinct (own_keys ?y)"
    using dA dB AB cA cB by (simp add: own_keys_def)
  have iy: "index_part ?y = A"
    by (simp only: index_part_append index_part_id [OF Ai] index_part_none [OF cBn] append_Nil2)
  have ny: "name_part ?y = (''credential'', c) # B"
    by (simp only: name_part_append name_part_none [OF Ai] name_part_id [OF cBn] append_Nil)
  have wfy: "wf_obj ?y" unfolding wf_obj_def iy ny using dy srt by simp
  have "map_of A ''credential'' = None"
    using cA by (simp add: map_of_eq_None_iff)
  then have cy: "own_prop ?y ''credential'' = c"
    by (simp add: own_prop_def map_add_def)
  have "rest_of A = A" using Ar by (simp add: rest_of_def filter_id_conv case_prod_beta)
  moreover have "rest_of B = B" using Br by (simp add: rest_of_def filter_id_conv case_prod_beta)
  moreover have "rest_of ?y = rest_of A @ rest_of B" by (simp add: rest_of_def)
  ultimately have ry: "rest_of ?y = A @ B" by simp
  have iry: "index_part (rest_of ?y) = A"
    by (simp only: ry index_part_append index_part_id [OF Ai] index_part_none [OF Bn] append_Nil2)
  have nry: "name_part (rest_of ?y) = B"
    by (simp only: ry name_part_append name_part_none [OF Ai] name_part_id [OF Bn] append_Nil)
  have fA: "filter kept A = A" using Ak by (simp add: filter_id_conv)
  have fB: "filter kept B = B" using Bk by (simp add: filter_id_conv)
  show ?thesis
    using config_params_shape [OF wfy] by (simp only: iry nry cy fA fB)
qed

lemma plain_wf:
  assumes "distinct (own_keys ps)" and "\<forall>k\<in>set (own_keys ps). \<not> is_array_index k"
  shows "wf_obj ps"
proof -
  have n: "\<forall>kv\<in>set ps. \<not> is_array_index (fst kv)"
    using assms(2) by (simp add: own_keys_def)
  have "index_part ps = []" by (rule index_part_none [OF n])
  moreover have "name_part ps = ps" by (rule name_part_id [OF n])
  ultimately show ?thesis using assms(1) by (simp add: wf_obj_def)
qed

lemmas obj_eval =
  config_params_def rest_of_def clean_step_def keep_value_def assign_prop_def define_prop_def
  has_own_def own_keys_def own_prop_def is_array_index_def index_val_def digit_val_def
  is_digit_def wf_obj_def index_part_def name_part_def

text \<open>
  C7. For each id of the operation dropdown the dispatcher returns the one tool id that
  belongs to it, \<^verbatim>\<open>salesforce_\<close> followed by the operation (so \<^verbatim>\<open>update_lead\<close> gives
  \<^verbatim>\<open>salesforce_update_lead\<close>); for every other string it throws the unknown-operation
  error. No tool is returned by default.
\<close>

theorem config_tool_dispatch:
  "config_tool operation =
     (if operation \<in> set operation_ids then Inr (''salesforce_'' @ operation)
      else Inl (Error (JStr (''Unknown operation: '' @ operation))))"
  unfolding operation_ids_def config_tool_def UnknownOperationError_def by auto

theorem config_tool_dispatch_witness:
  "config_tool ''update_lead'' = Inr ''salesforce_update_lead''
   \<and> config_tool ''bogus'' = Inl (Error (JStr ''Unknown operation: bogus''))"
  using config_tool_dispatch [of "''update_lead''"] config_tool_dispatch [of "''bogus''"]
  by (simp add: operation_ids_def)

text \<open>
  A parameter bag is keyed by the ids of the block's fields. None of them is an array index
  and none is \<^verbatim>\<open>__proto__\<close>, the two kinds of keys that an assignment to a plain
  object does not append as a new last property.
\<close>

lemma field_ids_plain:
  "k \<in> set field_ids \<Longrightarrow> \<not> is_array_index k \<and> k \<noteq> ''__proto__''"
  unfolding field_ids_def by (auto simp: is_array_index_def is_digit_def)

text \<open>
  C6. For every parameter bag (its keys are distinct and, like every field id, neither an
  array index nor \<^verbatim>\<open>__proto__\<close>), the cleaned bag has \<^verbatim>\<open>credential\<close> as its first
  key, with the value the input has under \<^verbatim>\<open>credential\<close> (\<^verbatim>\<open>undefined\<close> when it
  has none, and kept also when empty or \<^verbatim>\<open>null\<close>), has no key \<^verbatim>\<open>operation\<close>, and
  after \<^verbatim>\<open>credential\<close> holds exactly the other entries of the input whose value is not
  \<^verbatim>\<open>undefined\<close>, not \<^verbatim>\<open>null\<close> and not the empty string, each with its value
  unchanged, in the order of the input.
\<close>

theorem config_params_sanitized:
  assumes "distinct (own_keys bag)"
    and "\<forall>k\<in>set (own_keys bag). \<not> is_array_index k \<and> k \<noteq> ''__proto__''"
  shows "config_params bag =
           (''credential'', own_prop bag ''credential'')
           # filter (\<lambda>(k, v). k \<noteq> ''credential'' \<and> k \<noteq> ''operation''
                               \<and> v \<noteq> JUndefined \<and> v \<noteq> JNull \<and> v \<noteq> JStr []) bag
         \<and> hd (own_keys (config_params bag)) = ''credential''
         \<and> ''operation'' \<notin> set (own_keys (config_params bag))"
proof -
  have wf: "wf_obj bag" using assms by (intro plain_wf) auto
  have r: "\<forall>kv\<in>set (rest_of bag). \<not> is_array_index (fst kv)"
    using assms(2) by (auto simp: rest_of_def own_keys_def)
  have i: "index_part (rest_of bag) = []" by (rule index_part_none [OF r])
  have n: "name_part (rest_of bag) = rest_of bag" by (rule name_part_id [OF r])
  have "filter kept (rest_of bag) =
          filter (\<lambda>(k, v). k \<noteq> ''credential'' \<and> k \<noteq> ''operation''
                               \<and> v \<noteq> JUndefined \<and> v \<noteq> JNull \<and> v \<noteq> JStr []) bag"
    unfolding rest_of_def filter_filter
    using assms(2) by (intro filter_cong) (auto simp: kept_def keep_value_def own_keys_def)
  then have eq: "config_params bag =
           (''credential'', own_prop bag ''credential'')
           # filter (\<lambda>(k, v). k \<noteq> ''credential'' \<and> k \<noteq> ''operation''
                               \<and> v \<noteq> JUndefined \<and> v \<noteq> JNull \<and> v \<noteq> JStr []) bag"
    using config_params_shape [OF wf] i n by simp
  have "hd (own_keys (config_params bag)) = ''credential''"
    unfolding eq by (simp add: own_keys_def)
  moreover have "''operation'' \<notin> set (own_keys (config_params bag))"
    unfolding eq by (auto simp: own_keys_def)
  ultimately show ?thesis using eq by blast
qed

theorem config_params_sanitized_witness:
  "config_params [(''credential'', JStr ''c1''), (''operation'', JStr ''get_accounts''),
                  (''accountId'', JStr []), (''limit'', JStr ''50'')]
   = [(''credential'', JStr ''c1''), (''limit'', JStr ''50'')]"
  using config_params_sanitized
    [of "[(''credential'', JStr ''c1''), (''operation'', JStr ''get_accounts''),
          (''accountId'', JStr []), (''limit'', JStr ''50'')]"]
  by (simp add: own_keys_def own_prop_def is_array_index_def is_digit_def)

text \<open>
  C9. Cleaning is idempotent: for every parameter bag (the own properties of an object,
  array-index keys and \<^verbatim>\<open>__proto__\<close> included), cleaning the cleaned bag gives the
  cleaned bag again, with the same keys, the same values and the same order.
\<close>

theorem config_params_idempotent:
  assumes wf: "wf_obj x"
  shows "config_params (config_params x) = config_params x"
proof -
  let ?A = "filter kept (index_part (rest_of x))"
  let ?B = "filter kept (name_part (rest_of x))"
  have y: "config_params x = ?A @ (''credential'', own_prop x ''credential'') # ?B"
    by (rule config_params_shape [OF wf])
  have Ai: "\<forall>kv\<in>set ?A. is_array_index (fst kv)" by (auto simp: index_part_def)
  have Bn: "\<forall>kv\<in>set ?B. \<not> is_array_index (fst kv)" by (auto simp: name_part_def)
  have Ar: "\<forall>kv\<in>set ?A. fst kv \<noteq> ''credential'' \<and> fst kv \<noteq> ''operation''"
    by (auto simp: index_part_def rest_of_def)
  have Br: "\<forall>kv\<in>set ?B. fst kv \<noteq> ''credential'' \<and> fst kv \<noteq> ''operation''"
    by (auto simp: name_part_def rest_of_def)
  have Ak: "\<forall>kv\<in>set ?A. kept kv" and Bk: "\<forall>kv\<in>set ?B. kept kv" by auto
  have d: "distinct (map fst (rest_of x))"
    using wf by (simp add: wf_obj_def own_keys_def rest_of_def distinct_map_filter)
  have dA: "distinct (map fst ?A)" using d by (simp add: index_part_def distinct_map_filter)
  have dB: "distinct (map fst ?B)" using d by (simp add: name_part_def distinct_map_filter)
  have "index_part (rest_of x) = rest_of (index_part x)"
    by (auto simp: rest_of_def index_part_def intro: filter_cong)
  then have srt: "sorted_wrt (<) (map (index_val \<circ> fst) ?A)"
    using wf unfolding wf_obj_def rest_of_def by (simp add: sorted_wrt_filter_map)
  show ?thesis
    unfolding y by (rule config_params_fixed [OF Ai Bn srt dA dB Ar Br Ak Bk])
qed

theorem config_params_idempotent_witness:
  "wf_obj [(''7'', JStr ''x''), (''credential'', JNull), (''operation'', JStr ''run_report''),
           (''reportId'', JStr ''r1''), (''includeDetails'', JStr [])]
   \<and> config_params (config_params
        [(''7'', JStr ''x''), (''credential'', JNull), (''operation'', JStr ''run_report''),
         (''reportId'', JStr ''r1''), (''includeDetails'', JStr [])])
     = config_params
        [(''7'', JStr ''x''), (''credential'', JNull), (''operation'', JStr ''run_report''),
         (''reportId'', JStr ''r1''), (''includeDetails'', JStr [])]"
proof -
  have w: "wf_obj [(''7'', JStr ''x''), (''credential'', JNull),
                   (''operation'', JStr ''run_report''),
                   (''reportId'', JStr ''r1''), (''includeDetails'', JStr [])]"
    by (simp add: obj_eval)
  show ?thesis by (rule conjI, rule w, rule config_params_idempotent [OF w])
qed

section \<open>Properties of the instance URL\<close>

lemma match_origin_prefix:
  assumes "host \<noteq> []" and "CHR ''/'' \<notin> set host" and "rest = [] \<or> hd rest = CHR ''/''"
  shows "match_origin (''https://'' @ host @ rest) = Some (''https://'' @ host)"
proof -
  have "takeWhile (\<lambda>c. c \<noteq> CHR ''/'') rest = []"
    using assms(3) by (cases rest) auto
  moreover have "takeWhile (\<lambda>c. c \<noteq> CHR ''/'') (host @ rest)
                   = host @ takeWhile (\<lambda>c. c \<noteq> CHR ''/'') rest"
    using assms(2) by (intro takeWhile_append2) auto
  ultimately have "takeWhile (\<lambda>c. c \<noteq> CHR ''/'') (host @ rest) = host" by simp
  then show ?thesis using assms(1) by (simp add: match_origin_def)
qed

lemma decode_payload_empty: "decode_payload P [] = Inl TypeError"
  by (simp add: decode_payload_def payload_segment_def bindE_def)

lemma not_present: "\<not> present u \<Longrightarrow> getInstanceUrl P idToken u lg = token_or_throw P idToken lg"
  by (cases u) (auto simp: present_def getInstanceUrl_def)

lemma token_or_throw_url:
  "url_from_token P t = Inr (Some url) \<Longrightarrow> t \<noteq> [] \<Longrightarrow> token_or_throw P (Some t) lg = (Inr url, lg)"
  by (simp add: token_or_throw_def)

lemma token_or_throw_none:
  "url_from_token P t = Inr None \<Longrightarrow> token_or_throw P (Some t) lg = (Inl ConfigurationError, lg)"
  by (simp add: token_or_throw_def)

lemma own_prop_absent: "\<not> has_own ps k \<Longrightarrow> own_prop ps k = JUndefined"
proof -
  assume "\<not> has_own ps k"
  then have "map_of ps k = None"
    by (simp add: has_own_def own_keys_def map_of_eq_None_iff)
  then show ?thesis by (simp add: own_prop_def)
qed

text \<open>
  C4. For every non-empty explicit instance URL and every identity token, present, absent
  or malformed, the resolver returns the explicit URL unchanged. The token is not decoded:
  the result is the same whatever the three decoding functions do, and nothing is logged.
\<close>

theorem getInstanceUrl_explicit:
  "u \<noteq> [] \<Longrightarrow> getInstanceUrl P idToken (Some u) lg = (Inr u, lg)"
  by (simp add: getInstanceUrl_def)

theorem getInstanceUrl_explicit_witness:
  "getInstanceUrl
     \<lparr>atob = (\<lambda>s. Inl InvalidCharacterError), decodeURIComponent = (\<lambda>s. Inl URIError),
      JSON_parse = (\<lambda>s. Inl SyntaxError)\<rparr>
     (Some ''not.a.token'') (Some ''https://acme.my.salesforce.com'') []
   = (Inr ''https://acme.my.salesforce.com'', [])"
  by (rule getInstanceUrl_explicit) simp

text \<open>
  C3. With no explicit instance URL and a token whose decoded payload has a
  \<^verbatim>\<open>profile\<close> field that begins with an https origin (\<^verbatim>\<open>https://\<close>, a non-empty
  host without a slash, then the end or a slash), the resolver returns that origin. The
  origin \<^verbatim>\<open>https://login.salesforce.com\<close> is returned like any other.
\<close>

theorem getInstanceUrl_profile:
  assumes "\<not> present instanceUrl"
    and "decode_payload P t = Inr (JObj claims)"
    and "own_prop claims ''profile'' = JStr (''https://'' @ host @ rest)"
    and "host \<noteq> []" and "CHR ''/'' \<notin> set host" and "rest = [] \<or> hd rest = CHR ''/''"
  shows "getInstanceUrl P (Some t) instanceUrl lg = (Inr (''https://'' @ host), lg)"
proof -
  have t: "t \<noteq> []" using assms(2) decode_payload_empty by auto
  have m: "match_origin (''https://'' @ host @ rest) = Some (''https://'' @ host)"
    by (rule match_origin_prefix [OF assms(4-6)])
  have "url_from_token P t = Inr (Some (''https://'' @ host))"
    using assms(2,3) m by (simp add: url_from_token_def bindE_def call_match_def)
  then show ?thesis
    using not_present [OF assms(1)] token_or_throw_url t by simp
qed

theorem getInstanceUrl_profile_witness:
  "getInstanceUrl
     \<lparr>atob = Inr, decodeURIComponent = Inr,
      JSON_parse = (\<lambda>s. Inr (JObj [(''profile'', JStr ''https://login.salesforce.com/id/abc'')]))\<rparr>
     (Some ''h.p.s'') None []
   = (Inr ''https://login.salesforce.com'', [])"
  using getInstanceUrl_profile
    [of None
        "\<lparr>atob = Inr, decodeURIComponent = Inr,
          JSON_parse = (\<lambda>s. Inr (JObj [(''profile'', JStr ''https://login.salesforce.com/id/abc'')]))\<rparr>"
        "''h.p.s''" "[(''profile'', JStr ''https://login.salesforce.com/id/abc'')]"
        "''login.salesforce.com''" "''/id/abc''" "[]"]
  by (simp add: present_def decode_payload_def payload_segment_def bindE_def own_prop_def)

text \<open>
  C2. With no explicit instance URL and a token whose decoded payload has no
  \<^verbatim>\<open>profile\<close> field and a \<^verbatim>\<open>sub\<close> field that begins with an https origin: the
  resolver returns that origin when it is not exactly \<^verbatim>\<open>https://login.salesforce.com\<close>,
  and fails with the configuration error when it is.
\<close>

theorem getInstanceUrl_sub:
  assumes "\<not> present instanceUrl"
    and "decode_payload P t = Inr (JObj claims)"
    and "\<not> has_own claims ''profile''"
    and "own_prop claims ''sub'' = JStr (''https://'' @ host @ rest)"
    and "host \<noteq> []" and "CHR ''/'' \<notin> set host" and "rest = [] \<or> hd rest = CHR ''/''"
  shows "getInstanceUrl P (Some t) instanceUrl lg =
           (if ''https://'' @ host = ''https://login.salesforce.com''
            then Inl ConfigurationError else Inr (''https://'' @ host), lg)"
proof -
  have t: "t \<noteq> []" using assms(2) decode_payload_empty by auto
  have p: "own_prop claims ''profile'' = JUndefined" by (rule own_prop_absent [OF assms(3)])
  have m: "match_origin (''https://'' @ host @ rest) = Some (''https://'' @ host)"
    by (rule match_origin_prefix [OF assms(5-7)])
  have u: "url_from_token P t =
             Inr (if ''https://'' @ host \<noteq> ''https://login.salesforce.com''
                  then Some (''https://'' @ host) else None)"
    using assms(2,4) p m by (simp add: url_from_token_def bindE_def call_match_def)
  show ?thesis
  proof (cases "''https://'' @ host = ''https://login.salesforce.com''")
    case True
    then have "url_from_token P t = Inr None" using u by simp
    then show ?thesis
      using not_present [OF assms(1)] token_or_throw_none True by simp
  next
    case False
    then have "url_from_token P t = Inr (Some (''https://'' @ host))" using u by simp
    then show ?thesis
      using not_present [OF assms(1)] token_or_throw_url t False by simp
  qed
qed

theorem getInstanceUrl_sub_witness:
  "getInstanceUrl
     \<lparr>atob = Inr, decodeURIComponent = Inr,
      JSON_parse = (\<lambda>s. Inr (JObj [(''sub'', JStr ''https://acme.my.salesforce.com/id/xyz'')]))\<rparr>
     (Some ''h.p.s'') None []
   = (Inr ''https://acme.my.salesforce.com'', [])
   \<and> getInstanceUrl
     \<lparr>atob = Inr, decodeURIComponent = Inr,
      JSON_parse = (\<lambda>s. Inr (JObj [(''sub'', JStr ''https://login.salesforce.com/id/xyz'')]))\<rparr>
     (Some ''h.p.s'') None []
   = (Inl ConfigurationError, [])"
  using getInstanceUrl_sub
    [of None
        "\<lparr>atob = Inr, decodeURIComponent = Inr,
          JSON_parse = (\<lambda>s. Inr (JObj [(''sub'', JStr ''https://acme.my.salesforce.com/id/xyz'')]))\<rparr>"
        "''h.p.s''" "[(''sub'', JStr ''https://acme.my.salesforce.com/id/xyz'')]"
        "''acme.my.salesforce.com''" "''/id/xyz''" "[]"]
    getInstanceUrl_sub
    [of None
        "\<lparr>atob = Inr, decodeURIComponent = Inr,
          JSON_parse = (\<lambda>s. Inr (JObj [(''sub'', JStr ''https://login.salesforce.com/id/xyz'')]))\<rparr>"
        "''h.p.s''" "[(''sub'', JStr ''https://login.salesforce.com/id/xyz'')]"
        "''login.salesforce.com''" "''/id/xyz''" "[]"]
  by (simp add: present_def decode_payload_def payload_segment_def bindE_def own_prop_def
        has_own_def own_keys_def)

text \<open>
  The statement of C5 fails on the message: the error thrown for a malformed token carries
  \<^verbatim>\<open>Salesforce instance URL is required but not provided\<close>, not
  \<^verbatim>\<open>instance URL required but not provided\<close>.
\<close>

theorem getInstanceUrl_malformed_counterexample:
  "getInstanceUrl
     \<lparr>atob = (\<lambda>s. Inl InvalidCharacterError), decodeURIComponent = Inr,
      JSON_parse = (\<lambda>s. Inl SyntaxError)\<rparr>
     (Some ''h.!!!.s'') None []
   = (Inl (Error (JStr ''Salesforce instance URL is required but not provided'')),
      [(''Failed to decode Salesforce idToken'', InvalidCharacterError)])
   \<and> Error (JStr ''Salesforce instance URL is required but not provided'')
       \<noteq> Error (JStr ''instance URL required but not provided'')"
  by (simp add: getInstanceUrl_def token_or_throw_def url_from_token_def decode_payload_def
        payload_segment_def bindE_def ConfigurationError_def replace_all_def)

text \<open>
  C5, amended. With no explicit instance URL and a malformed identity token (not empty,
  and its payload cannot be decoded: no second segment, no valid base64, no valid UTF-8 or
  no valid JSON), the failure is caught, one diagnostic is logged, and the resolver fails
  with the error whose message is
  \<^verbatim>\<open>Salesforce instance URL is required but not provided\<close>.
\<close>

theorem getInstanceUrl_malformed:
  assumes "\<not> present instanceUrl" and "t \<noteq> []" and "decode_payload P t = Inl e"
  shows "getInstanceUrl P (Some t) instanceUrl lg =
           (Inl (Error (JStr ''Salesforce instance URL is required but not provided'')),
            lg @ [(''Failed to decode Salesforce idToken'', e)])"
proof -
  have "url_from_token P t = Inl e"
    using assms(3) by (simp add: url_from_token_def bindE_def)
  then show ?thesis
    using not_present [OF assms(1)] assms(2)
    by (simp add: token_or_throw_def ConfigurationError_def)
qed

theorem getInstanceUrl_malformed_witness:
  "getInstanceUrl
     \<lparr>atob = Inr, decodeURIComponent = Inr, JSON_parse = (\<lambda>s. Inl SyntaxError)\<rparr>
     (Some ''h.e30x.s'') (Some []) [(''earlier'', TypeError)]
   = (Inl (Error (JStr ''Salesforce instance URL is required but not provided'')),
      [(''earlier'', TypeError), (''Failed to decode Salesforce idToken'', SyntaxError)])"
  using getInstanceUrl_malformed
    [of "Some []" "''h.e30x.s''"
        "\<lparr>atob = Inr, decodeURIComponent = Inr, JSON_parse = (\<lambda>s. Inl SyntaxError)\<rparr>"
        SyntaxError "[(''earlier'', TypeError)]"]
  by (simp add: present_def decode_payload_def payload_segment_def bindE_def)

section \<open>Properties of the tools\<close>

text \<open>
  C10. For the tools that run a report, synchronously or asynchronously, the
  \<^verbatim>\<open>includeDetails\<close> query parameter of the request URL is \<^verbatim>\<open>false\<close> when the input
  is exactly the string \<^verbatim>\<open>false\<close>, and \<^verbatim>\<open>true\<close> for every other input, the absent one
  included.
\<close>

theorem includeDetails_query:
  assumes "getInstanceUrl P (p_idToken ps) (p_instanceUrl ps) lg = (Inr base, lg')"
  shows "salesforceRunReportTool_url P ps lg =
           (Inr (base @ ''/services/data/v59.0/analytics/reports/'' @ p_reportId ps
                 @ ''?includeDetails=''
                 @ (if p_includeDetails ps = Some ''false'' then ''false'' else ''true'')), lg')
         \<and> salesforceRunReportAsyncTool_url P ps lg =
           (Inr (base @ ''/services/data/v59.0/analytics/reports/'' @ p_reportId ps
                 @ ''/instances?includeDetails=''
                 @ (if p_includeDetails ps = Some ''false'' then ''false'' else ''true'')), lg')"
  using assms
  by (simp add: salesforceRunReportTool_url_def salesforceRunReportAsyncTool_url_def
        bool_text_def)

theorem includeDetails_query_witness:
  "salesforceRunReportTool_url
     \<lparr>atob = Inr, decodeURIComponent = Inr, JSON_parse = (\<lambda>s. Inl SyntaxError)\<rparr>
     \<lparr>p_idToken = None, p_instanceUrl = Some ''https://acme.my.salesforce.com'',
      p_reportId = ''00O1'', p_includeDetails = Some ''False''\<rparr> []
   = (Inr ''https://acme.my.salesforce.com/services/data/v59.0/analytics/reports/00O1?includeDetails=true'', [])
   \<and> salesforceRunReportAsyncTool_url
     \<lparr>atob = Inr, decodeURIComponent = Inr, JSON_parse = (\<lambda>s. Inl SyntaxError)\<rparr>
     \<lparr>p_idToken = None, p_instanceUrl = Some ''https://acme.my.salesforce.com'',
      p_reportId = ''00O1'', p_includeDetails = Some ''false''\<rparr> []
   = (Inr ''https://acme.my.salesforce.com/services/data/v59.0/analytics/reports/00O1/instances?includeDetails=false'', [])"
  using
    includeDetails_query
      [of "\<lparr>atob = Inr, decodeURIComponent = Inr, JSON_parse = (\<lambda>s. Inl SyntaxError)\<rparr>"
          "\<lparr>p_idToken = None, p_instanceUrl = Some ''https://acme.my.salesforce.com'',
            p_reportId = ''00O1'', p_includeDetails = Some ''False''\<rparr>"
          "[]" "''https://acme.my.salesforce.com''" "[]"]
    includeDetails_query
      [of "\<lparr>atob = Inr, decodeURIComponent = Inr, JSON_parse = (\<lambda>s. Inl SyntaxError)\<rparr>"
          "\<lparr>p_idToken = None, p_instanceUrl = Some ''https://acme.my.salesforce.com'',
            p_reportId = ''00O1'', p_includeDetails = Some ''false''\<rparr>"
          "[]" "''https://acme.my.salesforce.com''" "[]"]
  by (simp add: getInstanceUrl_def)

lemma config_tool_Inr: "config_tool operation = Inr tid \<Longrightarrow> tid = ''salesforce_'' @ operation"
  unfolding config_tool_def UnknownOperationError_def by (auto split: if_splits)

lemma get_prop_member: "\<not> nullish v \<Longrightarrow> get_prop v k = Inr (member v k)"
  by (cases v) (simp_all add: member_def nullish_def)

lemma get_prop_nullish: "nullish v \<Longrightarrow> get_prop v k = Inl TypeError"
  by (auto simp: nullish_def)

lemma member_nullish: "nullish v \<Longrightarrow> member v k = JUndefined"
  by (auto simp: nullish_def member_def)

lemma with_data_ok:
  "ok r \<Longrightarrow> json r = Some d \<Longrightarrow> with_data r fallback k = k d"
  by (simp add: with_data_def read_json_def bindE_def)

lemma delete_guard_ok: "ok r \<Longrightarrow> delete_guard r fallback v = Inr v"
  by (simp add: delete_guard_def)

lemma read_member: "\<not> nullish d \<Longrightarrow> bindE (get_prop d k) f = f (member d k)"
  by (simp add: get_prop_member bindE_def)

text \<open>
  The statement of C1 for every tool fails on the tool it names: the transformer of
  \<^verbatim>\<open>get_report_metadata\<close> puts the response payload under \<^verbatim>\<open>metadata\<close> and the
  operation name under \<^verbatim>\<open>operation\<close>. And a 2xx response gives a result only when
  the body can be read: with a body that is no JSON the transformer of \<^verbatim>\<open>run_report\<close>
  throws.
\<close>

theorem transformResponse_envelope_counterexample:
  "transformResponse salesforceGetReportMetadataTool
     \<lparr>ok = True, json = Some (JObj [(''name'', JStr ''Pipeline'')])\<rparr>
     [(''reportId'', JStr ''00O1'')]
   = Inr (JObj [(''success'', JBool True),
                (''output'', JObj [(''reportId'', JStr ''00O1''),
                                   (''metadata'', JObj [(''name'', JStr ''Pipeline'')]),
                                   (''operation'', JStr ''get_report_metadata''),
                                   (''success'', JBool True)])])
   \<and> JObj [(''name'', JStr ''Pipeline'')] \<noteq> JObj [(''operation'', JStr ''get_report_metadata'')]
   \<and> transformResponse salesforceRunReportTool \<lparr>ok = True, json = None\<rparr>
       [(''reportId'', JStr ''00O1'')]
     = Inl SyntaxError"
  by (simp add: with_data_def read_json_def bindE_def succeeded_def own_prop_def)

text \<open>
  C1, amended. For every report and dashboard tool, on a 2xx response whose body the
  transformer can read (the body is JSON, and not \<^verbatim>\<open>null\<close> for \<^verbatim>\<open>run_report_async\<close>,
  \<^verbatim>\<open>create_report\<close> and \<^verbatim>\<open>clone_dashboard\<close>; the delete tools do not read the body),
  the transformer returns an object \<^verbatim>\<open>{success: true, output: {...}}\<close>. The output
  repeats the inputs of the operation under its echo keys and, for every tool but the
  delete tools, holds the response payload: the whole data, or the members of it the tool
  picks. For every tool but \<^verbatim>\<open>get_report_metadata\<close> the field \<^verbatim>\<open>metadata\<close> of
  the output is \<^verbatim>\<open>{operation: <name>}\<close>, the name being the operation the block
  dispatches to the tool; for \<^verbatim>\<open>get_report_metadata\<close> the field \<^verbatim>\<open>metadata\<close> is
  the response payload and the field \<^verbatim>\<open>operation\<close> is the name.
\<close>

theorem transformResponse_envelope:
  assumes "ok r" and "config_tool operation = Inr (tool_id t)"
    and "is_delete t \<or> (\<exists>d. json r = Some d \<and> (reads_id t \<longrightarrow> \<not> nullish d))"
  shows "\<exists>output.
           transformResponse t r params
             = Inr (JObj [(''success'', JBool True), (''output'', JObj output)])
           \<and> (\<forall>kp\<in>set (echo_fields t). own_prop output (fst kp) = own_prop params (snd kp))
           \<and> (\<forall>d. json r = Some d \<longrightarrow>
                (\<forall>km\<in>set (payload_fields t). own_prop output (fst km) = pick d (snd km)))
           \<and> (if t = salesforceGetReportMetadataTool
               then own_prop output ''operation'' = JStr operation
               else own_prop output ''metadata'' = JObj [(''operation'', JStr operation)])"
proof -
  have n: "tool_id t = ''salesforce_'' @ operation" by (rule config_tool_Inr [OF assms(2)])
  note ev = succeeded_def metadata_of_def own_prop_def pick_def
  show ?thesis
  proof (cases "is_delete t")
    case True
    then consider "t = salesforceDeleteReportInstanceTool" | "t = salesforceDeleteReportTool"
      | "t = salesforceDeleteDashboardTool"
      by (auto simp: is_delete_def)
    then show ?thesis
    proof cases
      case 1
      then show ?thesis using n assms(1) by (simp add: delete_guard_ok ev)
    next
      case 2
      then show ?thesis using n assms(1) by (simp add: delete_guard_ok ev)
    next
      case 3
      then show ?thesis using n assms(1) by (simp add: delete_guard_ok ev)
    qed
  next
    case False
    then obtain d where d: "json r = Some d" and nn: "reads_id t \<longrightarrow> \<not> nullish d"
      using assms(3) by auto
    note w = with_data_ok [OF assms(1) d]
    show ?thesis
    proof (cases t)
      case salesforceListReportsTool
      then show ?thesis using n d by (simp add: w ev)
    next
      case salesforceGetReportMetadataTool
      then show ?thesis using n d by (simp add: w ev)
    next
      case salesforceRunReportTool
      then show ?thesis using n d by (simp add: w ev)
    next
      case salesforceRunReportAsyncTool
      then have "\<not> nullish d" using nn by (simp add: reads_id_def)
      then show ?thesis
        using n d salesforceRunReportAsyncTool by (simp add: w read_member ev)
    next
      case salesforceGetReportInstanceTool
      then show ?thesis using n d by (simp add: w ev)
    next
      case salesforceListReportInstancesTool
      then show ?thesis using n d by (simp add: w ev)
    next
      case salesforceDeleteReportInstanceTool
      then show ?thesis using False by (simp add: is_delete_def)
    next
      case salesforceRunReportWithFiltersTool
      then show ?thesis using n d by (simp add: w ev)
    next
      case salesforceCreateReportTool
      then have "\<not> nullish d" using nn by (simp add: reads_id_def)
      then show ?thesis
        using n d salesforceCreateReportTool by (simp add: w read_member ev)
    next
      case salesforceUpdateReportTool
      then show ?thesis using n d by (simp add: w ev)
    next
      case salesforceDeleteReportTool
      then show ?thesis using False by (simp add: is_delete_def)
    next
      case salesforceListDashboardsTool
      then show ?thesis using n d by (simp add: w ev)
    next
      case salesforceGetDashboardTool
      then show ?thesis using n d by (simp add: w ev)
    next
      case salesforceRefreshDashboardTool
      then show ?thesis using n d by (simp add: w ev)
    next
      case salesforceCloneDashboardTool
      then have "\<not> nullish d" using nn by (simp add: reads_id_def)
      then show ?thesis
        using n d salesforceCloneDashboardTool by (simp add: w read_member ev)
    next
      case salesforceDeleteDashboardTool
      then show ?thesis using False by (simp add: is_delete_def)
    next
      case salesforceGetDashboardComponentTool
      then show ?thesis using n d by (simp add: w ev)
    qed
  qed
qed

theorem transformResponse_envelope_witness:
  "\<exists>output.
     transformResponse salesforceCloneDashboardTool
       \<lparr>ok = True, json = Some (JObj [(''id'', JStr ''01Z9''), (''name'', JStr ''Copy'')])\<rparr>
       [(''dashboardId'', JStr ''01Z1''), (''name'', JStr ''Copy'')]
       = Inr (JObj [(''success'', JBool True), (''output'', JObj output)])
     \<and> own_prop output ''sourceDashboardId'' = JStr ''01Z1''
     \<and> own_prop output ''name'' = JStr ''Copy''
     \<and> own_prop output ''newDashboardId'' = JStr ''01Z9''
     \<and> own_prop output ''dashboard'' = JObj [(''id'', JStr ''01Z9''), (''name'', JStr ''Copy'')]
     \<and> own_prop output ''metadata'' = JObj [(''operation'', JStr ''clone_dashboard'')]"
proof -
  let ?r = "\<lparr>ok = True, json = Some (JObj [(''id'', JStr ''01Z9''), (''name'', JStr ''Copy'')])\<rparr>"
  let ?p = "[(''dashboardId'', JStr ''01Z1''), (''name'', JStr ''Copy'')]"
  have a: "ok ?r" by simp
  have b: "config_tool ''clone_dashboard'' = Inr (tool_id salesforceCloneDashboardTool)"
    by (simp add: config_tool_def)
  have c: "is_delete salesforceCloneDashboardTool
           \<or> (\<exists>d. json ?r = Some d \<and> (reads_id salesforceCloneDashboardTool \<longrightarrow> \<not> nullish d))"
    by (simp add: nullish_def)
  obtain out where
    o: "transformResponse salesforceCloneDashboardTool ?r ?p
          = Inr (JObj [(''success'', JBool True), (''output'', JObj out)])
        \<and> (\<forall>kp\<in>set (echo_fields salesforceCloneDashboardTool).
              own_prop out (fst kp) = own_prop ?p (snd kp))
        \<and> (\<forall>d. json ?r = Some d \<longrightarrow>
              (\<forall>km\<in>set (payload_fields salesforceCloneDashboardTool).
                 own_prop out (fst km) = pick d (snd km)))
        \<and> (if salesforceCloneDashboardTool = salesforceGetReportMetadataTool
            then own_prop out ''operation'' = JStr ''clone_dashboard''
            else own_prop out ''metadata'' = JObj [(''operation'', JStr ''clone_dashboard'')])"
    using transformResponse_envelope [OF a b c, of ?p] by blast
  have "own_prop ?p ''dashboardId'' = JStr ''01Z1''" and "own_prop ?p ''name'' = JStr ''Copy''"
    by (simp_all add: own_prop_def)
  moreover have "member (JObj [(''id'', JStr ''01Z9''), (''name'', JStr ''Copy'')]) ''id''
                   = JStr ''01Z9''"
    by (simp add: member_def own_prop_def)
  ultimately show ?thesis
    using o by (intro exI [of _ out]) (simp add: pick_def)
qed

lemma failure_message_member:
  assumes "\<not> nullish d"
  shows "failure_message d fallback =
           Inr (if truthy (member (member d ''0'') ''message'')
                then member (member d ''0'') ''message''
                else if truthy (member d ''message'') then member d ''message''
                else JStr fallback)"
proof -
  have "(if nullish (member d ''0'') then Inr JUndefined else get_prop (member d ''0'') ''message'')
          = Inr (member (member d ''0'') ''message'')"
    by (simp add: get_prop_member member_nullish)
  then show ?thesis
    unfolding failure_message_def
    by (simp add: get_prop_member [OF assms] bindE_def)
qed

lemma throw_failure_member:
  "\<not> nullish d \<Longrightarrow>
   throw_failure d fallback =
     Inl (Error (if truthy (member (member d ''0'') ''message'')
                 then member (member d ''0'') ''message''
                 else if truthy (member d ''message'') then member d ''message''
                 else JStr fallback))"
  by (simp add: throw_failure_def failure_message_member)

lemma throw_failure_isl: "isl (throw_failure d fallback)"
  by (simp add: throw_failure_def split: sum.splits)

lemma with_data_isl:
  "isl (with_data r fallback k) \<longleftrightarrow>
     (\<not> ok r \<or> json r = None \<or> (\<exists>d. json r = Some d \<and> isl (k d)))"
  using throw_failure_isl
  by (auto simp: with_data_def read_json_def bindE_def split: option.splits)

lemma with_data_failure:
  "\<not> ok r \<Longrightarrow> json r = Some d \<Longrightarrow> with_data r fallback k = throw_failure d fallback"
  by (simp add: with_data_def read_json_def bindE_def)

lemma delete_guard_isl: "isl (delete_guard r fallback v) \<longleftrightarrow> \<not> ok r"
  using throw_failure_isl by (simp add: delete_guard_def)

lemma delete_guard_failure:
  "\<not> ok r \<Longrightarrow>
   delete_guard r fallback v =
     throw_failure (case json r of None \<Rightarrow> JObj [] | Some data \<Rightarrow> data) fallback"
  by (simp add: delete_guard_def)

lemma succeeded_isl: "\<not> isl (succeeded output)"
  by (simp add: succeeded_def)

lemma read_id_isl: "isl (bindE (get_prop d k) f) \<longleftrightarrow> (nullish d \<or> isl (f (member d k)))"
  by (cases "nullish d") (simp_all add: get_prop_member get_prop_nullish bindE_def)

lemma transformResponse_isl:
  "isl (transformResponse t r params) \<longleftrightarrow>
     (\<not> ok r \<or> (\<not> is_delete t \<and> json r = None)
      \<or> (reads_id t \<and> (\<exists>d. json r = Some d \<and> nullish d)))"
  by (cases t)
     (auto simp: with_data_isl delete_guard_isl succeeded_isl read_id_isl is_delete_def
                 reads_id_def)

lemma transformResponse_throws:
  assumes "\<not> ok r" and "failure_data t r = Some d"
  shows "transformResponse t r params = throw_failure d (fallback_message t)"
  using assms
  by (cases t)
     (auto simp: failure_data_def is_delete_def with_data_failure delete_guard_failure
           split: option.splits)

text \<open>
  The statement of C8 fails in three places. A 2xx response whose body is no JSON makes
  the transformer of a tool that reads the body throw. A non-2xx response whose body is no
  JSON makes such a tool throw the parser's error, not one with the fallback message. And a
  message that is present but empty is passed over for the next choice.
\<close>

theorem transformResponse_failure_counterexample:
  "transformResponse salesforceListReportsTool \<lparr>ok = True, json = None\<rparr> [] = Inl SyntaxError
   \<and> transformResponse salesforceListReportsTool \<lparr>ok = False, json = None\<rparr> [] = Inl SyntaxError
   \<and> transformResponse salesforceListReportsTool
       \<lparr>ok = False, json = Some (JArr [JObj [(''message'', JStr [])]])\<rparr> []
     = Inl (Error (JStr ''Failed to list reports''))"
  by (simp add: with_data_def read_json_def bindE_def throw_failure_def failure_message_def
        nullish_def own_prop_def is_array_index_def is_digit_def index_val_def digit_val_def)

text \<open>
  C8, amended. For every report and dashboard tool the transformer throws if and only if
  the response is non-2xx, or the tool is no delete tool and the body is no JSON, or the
  tool reads \<^verbatim>\<open>id\<close> off the data (\<^verbatim>\<open>run_report_async\<close>, \<^verbatim>\<open>create_report\<close>,
  \<^verbatim>\<open>clone_dashboard\<close>) and the body is \<^verbatim>\<open>null\<close>. On a non-2xx response whose body
  parsed to something other than \<^verbatim>\<open>null\<close>, the message of the error is the first truthy
  one of \<^verbatim>\<open>body[0]?.message\<close>, \<^verbatim>\<open>body.message\<close> and the fixed fallback string of the
  tool. For a delete tool a non-2xx body that is no JSON counts as the empty object, so the
  fallback string is the message.
\<close>

theorem transformResponse_failure:
  "(isl (transformResponse t r params) \<longleftrightarrow>
      (\<not> ok r \<or> (\<not> is_delete t \<and> json r = None)
       \<or> (reads_id t \<and> (\<exists>d. json r = Some d \<and> nullish d))))
   \<and> (\<forall>d. \<not> ok r \<and> failure_data t r = Some d \<and> \<not> nullish d \<longrightarrow>
        transformResponse t r params =
          Inl (Error (if truthy (member (member d ''0'') ''message'')
                      then member (member d ''0'') ''message''
                      else if truthy (member d ''message'') then member d ''message''
                      else JStr (fallback_message t))))
   \<and> (is_delete t \<and> \<not> ok r \<and> json r = None \<longrightarrow>
        transformResponse t r params = Inl (Error (JStr (fallback_message t))))"
proof (intro conjI allI impI)
  show "isl (transformResponse t r params) \<longleftrightarrow>
      (\<not> ok r \<or> (\<not> is_delete t \<and> json r = None)
       \<or> (reads_id t \<and> (\<exists>d. json r = Some d \<and> nullish d)))"
    by (rule transformResponse_isl)
next
  fix d
  assume a: "\<not> ok r \<and> failure_data t r = Some d \<and> \<not> nullish d"
  then have "transformResponse t r params = throw_failure d (fallback_message t)"
    by (intro transformResponse_throws) auto
  then show "transformResponse t r params =
          Inl (Error (if truthy (member (member d ''0'') ''message'')
                      then member (member d ''0'') ''message''
                      else if truthy (member d ''message'') then member d ''message''
                      else JStr (fallback_message t)))"
    using a by (simp add: throw_failure_member)
next
  assume a: "is_delete t \<and> \<not> ok r \<and> json r = None"
  then have f: "failure_data t r = Some (JObj [])" by (simp add: failure_data_def)
  have "transformResponse t r params = throw_failure (JObj []) (fallback_message t)"
    using a f by (intro transformResponse_throws) auto
  then show "transformResponse t r params = Inl (Error (JStr (fallback_message t)))"
    by (simp add: throw_failure_def failure_message_def bindE_def own_prop_def nullish_def)
qed

theorem transformResponse_failure_witness:
  "transformResponse salesforceRunReportTool
     \<lparr>ok = False, json = Some (JArr [JObj [(''message'', JStr ''Report not found''),
                                           (''errorCode'', JStr ''NOT_FOUND'')]])\<rparr> []
     = Inl (Error (JStr ''Report not found''))
   \<and> transformResponse salesforceRunReportTool
     \<lparr>ok = False, json = Some (JObj [(''message'', JStr ''Session expired'')])\<rparr> []
     = Inl (Error (JStr ''Session expired''))
   \<and> transformResponse salesforceDeleteReportTool \<lparr>ok = False, json = None\<rparr> []
     = Inl (Error (JStr ''Failed to delete report''))
   \<and> \<not> isl (transformResponse salesforceDeleteReportTool \<lparr>ok = True, json = None\<rparr> [])"
  using
    transformResponse_failure
      [of salesforceRunReportTool
          "\<lparr>ok = False, json = Some (JArr [JObj [(''message'', JStr ''Report not found''),
                                                (''errorCode'', JStr ''NOT_FOUND'')]])\<rparr>" "[]"]
    transformResponse_failure
      [of salesforceRunReportTool
          "\<lparr>ok = False, json = Some (JObj [(''message'', JStr ''Session expired'')])\<rparr>" "[]"]
    transformResponse_failure
      [of salesforceDeleteReportTool "\<lparr>ok = False, json = None\<rparr>" "[]"]
    transformResponse_failure
      [of salesforceDeleteReportTool "\<lparr>ok = True, json = None\<rparr>" "[]"]
  by (simp add: failure_data_def is_delete_def reads_id_def nullish_def member_def own_prop_def
        is_array_index_def is_digit_def index_val_def digit_val_def)

end
